theory Spec2Isabelle
  imports Main "HOL-Library.Sublist" "HOL-Library.AList"
begin

section \<open>Python strings\<close>

text \<open>
  Strings are lists of characters. The functions of this section are the methods of
  Python's \<open>str\<close> that \<open>gitcat.py\<close> calls, with Python's meaning.
\<close>

abbreviation LF :: char where "LF \<equiv> CHR 0x0A"
abbreviation CR :: char where "CR \<equiv> CHR 0x0D"
abbreviation DQ :: char where "DQ \<equiv> CHR 0x22"

text \<open>\<open>str.isspace\<close> on one character, for the code points below 256.\<close>

definition isspace :: "char \<Rightarrow> bool" where
  "isspace c = (c \<in> set [CHR 0x09, CHR 0x0A, CHR 0x0B, CHR 0x0C, CHR 0x0D,
                          CHR 0x1C, CHR 0x1D, CHR 0x1E, CHR 0x1F, CHR 0x20, CHR 0x85, CHR 0xA0])"

text \<open>\<open>s.strip()\<close>: leading and trailing whitespace removed.\<close>

definition strip :: "string \<Rightarrow> string" where
  "strip s = rev (dropWhile isspace (rev (dropWhile isspace s)))"

text \<open>
  \<open>s.partition(sep)\<close> where \<open>sep\<close> occurs: the text before and after the first
  occurrence; \<open>None\<close> where it does not occur.
\<close>

fun partition_sep :: "string \<Rightarrow> string \<Rightarrow> (string \<times> string) option" where
  "partition_sep sep [] = (if sep = [] then Some ([], []) else None)"
| "partition_sep sep (c # cs) =
     (if prefix sep (c # cs) then Some ([], drop (length sep) (c # cs))
      else map_option (\<lambda>(b, a). (c # b, a)) (partition_sep sep cs))"

text \<open>\<open>sep in s\<close>.\<close>

definition str_in :: "string \<Rightarrow> string \<Rightarrow> bool" where
  "str_in sep s = (partition_sep sep s \<noteq> None)"

lemma partition_sep_length:
  "partition_sep sep s = Some (b, a) \<Longrightarrow> length b + length sep + length a = length s"
proof (induction s arbitrary: b a)
  case Nil
  then show ?case by (simp split: if_splits)
next
  case (Cons c cs)
  show ?case
  proof (cases "prefix sep (c # cs)")
    case True
    then have "length sep \<le> length (c # cs)" by (rule prefix_length_le)
    with True Cons.prems show ?thesis by auto
  next
    case False
    with Cons.prems obtain b' where "partition_sep sep cs = Some (b', a)" and "b = c # b'"
      by auto
    with Cons.IH show ?thesis by fastforce
  qed
qed

text \<open>
  \<open>s.split(sep)\<close> for a separator that is not empty: the pieces between the
  occurrences of \<open>sep\<close>, found from the left and not overlapping. (Python raises
  ValueError on an empty separator; the source only splits on \<open>' = '\<close> and on a
  newline, and the model returns the string whole there.)
\<close>

function split :: "string \<Rightarrow> string \<Rightarrow> string list" where
  "split sep s =
     (case partition_sep sep s of
        None \<Rightarrow> [s]
      | Some (b, a) \<Rightarrow> if sep = [] then [s] else b # split sep a)"
  by pat_completeness auto
termination
proof (relation "measure (\<lambda>(sep, s). length s)")
  show "wf (measure (\<lambda>(sep, s). length s))" by simp
next
  fix sep s :: string and x2 :: "string \<times> string" and b a :: string
  assume "partition_sep sep s = Some x2" and "(b, a) = x2" and "sep \<noteq> []"
  then have "length b + length sep + length a = length s" and "sep \<noteq> []"
    using partition_sep_length [of sep s b a] by auto
  then show "((sep, a), (sep, s)) \<in> measure (\<lambda>(sep, s). length s)"
    by (cases sep) auto
qed

declare split.simps [simp del]



section \<open>Text files\<close>

text \<open>
  A file opened in text mode is read with universal newlines: \<open>\r\n\<close> and a lone
  \<open>\r\<close> arrive as \<open>\n\<close>. Iterating over the file gives its lines, each with its
  newline. Writing is modelled on a POSIX system, where \<open>\n\<close> is written as it is.
\<close>

fun universal_newlines :: "string \<Rightarrow> string" where
  "universal_newlines [] = []"
| "universal_newlines [c] = (if c = CR then [LF] else [c])"
| "universal_newlines (c # d # cs) =
     (if c = CR \<and> d = LF then LF # universal_newlines cs
      else if c = CR then LF # universal_newlines (d # cs)
      else c # universal_newlines (d # cs))"

fun keepends :: "string \<Rightarrow> string list" where
  "keepends [] = []"
| "keepends (c # cs) =
     (if c = LF then [c] # keepends cs
      else (case keepends cs of [] \<Rightarrow> [[c]] | l # ls \<Rightarrow> (c # l) # ls))"

definition file_lines :: "string \<Rightarrow> string list" where
  "file_lines content = keepends (universal_newlines content)"

section \<open>Outcomes\<close>

text \<open>
  A run of the program ends normally, or through \<open>error_message\<close>, which prints
  \<open>git cat error: ...\<close> and calls \<open>sys.exit(1)\<close>, or through an exception that
  nothing catches (the interpreter prints a traceback).
\<close>

datatype outcome =
    SystemExit string nat
  | Uncaught string

definition error_message :: "string \<Rightarrow> outcome" where
  "error_message err = SystemExit (''git cat error: '' @ err) 1"

section \<open>The catalogue\<close>

text \<open>
  \<open>self.catalogue\<close> is a Python dict from directory to remote. A dict keeps its keys
  in insertion order, so it is an association list with distinct keys;
  \<open>d[k] = v\<close> is \<^const>\<open>AList.update\<close> and \<open>del d[k]\<close> is \<^const>\<open>AList.delete\<close>.
\<close>

type_synonym catalogue = "(string \<times> string) list"

text \<open>
  The regular expression library is not part of the repository: \<open>re.compile\<close> is a
  parameter that gives, for a pattern, its \<open>search\<close> predicate (\<open>Inr\<close>), or the
  class of the exception that compiling raises (\<open>Inl\<close>): \<open>re.error\<close> for most
  rejected patterns, \<open>ValueError\<close> or \<open>OverflowError\<close> for some. Handlers are
  matched on the class named; subclasses are not modelled.
\<close>

type_synonym regex_engine = "string \<Rightarrow> string + (string \<Rightarrow> bool)"

text \<open>The values that the parsed command-line options hold.\<close>

datatype pyval = PyNone | PyBool bool | PyStr string | PyList "string list" | PyInt int

fun truthy :: "pyval \<Rightarrow> bool" where
  "truthy PyNone = False"
| "truthy (PyBool b) = b"
| "truthy (PyStr s) = (s \<noteq> [])"
| "truthy (PyList xs) = (xs \<noteq> [])"
| "truthy (PyInt i) = (i \<noteq> 0)"

text \<open>
  The fields of a \<open>GitCat\<close> object. \<open>repositories_filter\<close> is
  \<open>options.repositories\<close>, \<open>None\<close> when the parsed options have no such attribute
  (the commands that take a directory). \<open>option_vars\<close> is \<open>vars(self.options)\<close>,
  the attributes of the parsed options in order; the table of the options of each
  command (\<open>git-options.ini\<close>) is not part of the sources, so the attributes are
  a parameter. \<open>dry_run\<close> and \<open>quiet\<close> are the toggles that \<open>__init__\<close> has
  merged from the options.
\<close>

record gitcat =
  gitcatrc :: string
  prefix_dir :: string
  dry_run :: bool
  quiet :: bool
  catalogue :: catalogue
  max_width :: nat
  repositories_filter :: "string option"
  option_vars :: "(string \<times> pyval) list"

text \<open>\<open>GitCat.repositories\<close>.\<close>

definition repositories :: "regex_engine \<Rightarrow> gitcat \<Rightarrow> outcome + string list" where
  "repositories re_compile self =
     (case repositories_filter self of
        None \<Rightarrow> Inr (map fst (catalogue self))
      | Some pat \<Rightarrow>
          (case re_compile pat of
             Inl exn \<Rightarrow> Inl (Uncaught exn)
           | Inr search \<Rightarrow> Inr (filter search (map fst (catalogue self)))))"

text \<open>
  \<open>dire.lower == 'prefix'\<close> compares the bound method \<open>dire.lower\<close>, which the
  source does not call, with a string: the two are never equal.
\<close>

definition bound_method_eq_str :: "string \<Rightarrow> string \<Rightarrow> bool" where
  "bound_method_eq_str s t = False"

text \<open>
  The body of the loop of \<open>read_catalogue\<close> on one line. \<open>dire, rep = line.split(' = ')\<close>
  raises ValueError unless the split has exactly two pieces.
\<close>

definition read_line :: "gitcat \<Rightarrow> string \<Rightarrow> outcome + gitcat" where
  "read_line self line =
     (if str_in '' = '' line then
        (case split '' = '' line of
           [dire0, rep] \<Rightarrow>
             (let dire = strip dire0 in
              if dire \<in> set (map fst (catalogue self)) then
                Inl (error_message (dire @ '' appears in the catalogue more than once!''))
              else if bound_method_eq_str dire ''prefix'' then
                Inr (self\<lparr>prefix_dir := strip rep\<rparr>)
              else
                Inr (self\<lparr>catalogue := AList.update dire (strip rep) (catalogue self)\<rparr>))
         | _ \<Rightarrow> Inl (Uncaught ''ValueError''))
      else Inr self)"

fun read_lines :: "gitcat \<Rightarrow> string list \<Rightarrow> outcome + gitcat" where
  "read_lines self [] = Inr self"
| "read_lines self (line # rest) =
     (case read_line self line of
        Inl e \<Rightarrow> Inl e
      | Inr self' \<Rightarrow> read_lines self' rest)"

text \<open>
  \<open>GitCat.read_catalogue\<close>. The file is given by its content, \<open>None\<close> when \<open>open\<close>
  raises FileNotFoundError or OSError. \<open>self.max\<close> is one more than the longest key
  that \<open>repositories()\<close> yields. The assignment stands in a \<open>try\<close> with
  \<open>except ValueError\<close>, which sets it to 0: that catches the ValueError of \<open>max\<close>
  on no keys, and also a ValueError that \<open>re.compile\<close> raises inside
  \<open>repositories()\<close>; any other exception of \<open>repositories()\<close> leaves the method.
\<close>

definition read_catalogue :: "regex_engine \<Rightarrow> string option \<Rightarrow> gitcat \<Rightarrow> outcome + gitcat" where
  "read_catalogue re_compile file self =
     (case file of
        None \<Rightarrow>
          Inl (error_message (''there was a problem reading the catalogue file '' @ gitcatrc self))
      | Some content \<Rightarrow>
          (case read_lines (self\<lparr>catalogue := []\<rparr>) (file_lines content) of
             Inl e \<Rightarrow> Inl e
           | Inr self' \<Rightarrow>
               (case repositories re_compile self' of
                  Inl e \<Rightarrow>
                    (if e = Uncaught ''ValueError'' then Inr (self'\<lparr>max_width := 0\<rparr>) else Inl e)
                | Inr [] \<Rightarrow> Inr (self'\<lparr>max_width := 0\<rparr>)
                | Inr keys \<Rightarrow> Inr (self'\<lparr>max_width := Max (set (map length keys)) + 1\<rparr>))))"









subsection \<open>What a catalogue must satisfy to be stored\<close>

definition newline_free :: "string \<Rightarrow> bool" where
  "newline_free s = (LF \<notin> set s \<and> CR \<notin> set s)"

definition trimmed :: "string \<Rightarrow> bool" where
  "trimmed s = (strip s = s)"

text \<open>
  A key is written before the separator and padded with spaces: the separator must
  not occur in the key followed by a space (so the key neither contains \<open>' = '\<close>
  nor ends in \<open>' ='\<close>).
\<close>

definition storable_key :: "string \<Rightarrow> bool" where
  "storable_key k = (newline_free k \<and> trimmed k \<and> \<not> str_in '' = '' (k @ '' ''))"

definition storable_remote :: "string \<Rightarrow> bool" where
  "storable_remote r = (newline_free r \<and> trimmed r \<and> \<not> str_in '' = '' r)"

definition storable :: "catalogue \<Rightarrow> bool" where
  "storable C = list_all (\<lambda>(k, r). storable_key k \<and> storable_remote r) C"


subsection \<open>A concrete engine and a concrete object for the examples\<close>

text \<open>
  A pattern without any of the special characters of Python's regular expressions
  searches as a substring. The engine of the examples compiles these patterns. Like
  Python it answers \<open>(?a)(?u)x\<close>, whose flags clash, with ValueError, and \<open>(\<close>
  with \<open>re.error\<close>; and it answers every other pattern that has a special character
  with \<open>re.error\<close> too, where Python would compile many of them.
\<close>

definition literal_re_compile :: regex_engine where
  "literal_re_compile pat =
     (if list_all (\<lambda>c. c \<notin> set (''.^$*+?{}[]|()'' @ [CHR 0x5C])) pat then Inr (str_in pat)
      else if pat = ''(?a)(?u)x'' then Inl ''ValueError''
      else Inl ''re.error'')"

definition sample_gitcat :: gitcat where
  "sample_gitcat =
     \<lparr>gitcatrc = ''/home/u/.gitcatrc'', prefix_dir = ''/home/u'', dry_run = False,
      quiet = False,
      catalogue = [(''Code/Prog1'', ''git@host:org/prog1.git''), (''Notes/Life'', ''git@host:me/life.git'')],
      max_width = 11, repositories_filter = None,
      option_vars = [(''command'', PyStr ''push''), (''git_local'', PyBool False)]\<rparr>"

section \<open>Running git\<close>





text \<open>
  The fields of a \<open>Git\<close> object. \<open>error_message\<close> is set only when the exit
  status is not zero; \<open>bool(g)\<close> is \<open>git_command_ok\<close>.
\<close>

record git =
  git_rep :: string
  git_returncode :: int
  git_command :: string
  git_error_message :: "string option"
  git_command_ok :: bool
  git_output :: string

text \<open>The command line that \<open>Git.__init__\<close> passes to the shell.\<close>

definition command_line :: "string \<Rightarrow> string \<Rightarrow> string" where
  "command_line command options = strip (''git '' @ command @ '' '' @ options)"





section \<open>The catalogue store: properties\<close>

subsection \<open>Strings and lines\<close>


lemma update_fresh: "k \<notin> set (map fst al) \<Longrightarrow> AList.update k v al = al @ [(k, v)]"
  by (induction al) auto




lemma prefix_snoc_other:
  "sep \<noteq> [] \<Longrightarrow> last sep \<noteq> x \<Longrightarrow> prefix sep (xs @ [x]) \<Longrightarrow> prefix sep xs"
  by (auto simp: prefix_snoc)






lemma isspace_simps [simp]: "isspace CHR '' ''" "isspace LF"
  by (simp_all add: isspace_def)
















lemma read_line_cases:
  assumes "read_line self l = Inr s"
  shows "(\<not> str_in '' = '' l \<and> s = self) \<or>
         (str_in '' = '' l \<and> (\<exists>d r. split '' = '' l = [d, r]
            \<and> strip d \<notin> set (map fst (catalogue self))
            \<and> s = self\<lparr>catalogue := catalogue self @ [(strip d, strip r)]\<rparr>))"
proof (cases "str_in '' = '' l")
  case False
  with assms show ?thesis by (simp add: read_line_def)
next
  case True
  with assms obtain d r where sp: "split '' = '' l = [d, r]"
    unfolding read_line_def by (auto split: list.splits)
  with assms True show ?thesis
    unfolding read_line_def
    by (auto simp: bound_method_eq_str_def update_fresh Let_def split: if_splits)
qed





subsection \<open>Claims about the catalogue store\<close>

lemmas eval_simps = storable_def storable_key_def storable_remote_def newline_free_def trimmed_def
  strip_def isspace_def str_in_def sample_gitcat_def




text \<open>
  Claim C5 at its failing input. The line \<open>a = b = c\<close> is split at every
  \<open>' = '\<close>, into three pieces, and unpacking three pieces into \<open>dire, rep\<close>
  raises ValueError, which nothing catches: the line is not parsed as the directory
  \<open>a\<close> with the remote \<open>b = c\<close>.
\<close>

theorem read_line_two_separators:
  "read_line self (''a = b = c'' @ [LF]) = Inl (Uncaught ''ValueError'')"
  by (simp add: read_line_def str_in_def split.simps)

text \<open>
  Claim C8 at its failing input. The key \<open>a\<close> stands on two entry lines, and the
  second one has a further \<open>' = '\<close>: the load ends in the uncaught ValueError of the
  split, before the duplicate is looked for, and not in the duplicate-entry error.
\<close>

theorem duplicate_after_two_separators:
  "read_catalogue re_compile (Some (''a = 1'' @ [LF] @ ''a = 2 = 3'' @ [LF])) self
     = Inl (Uncaught ''ValueError'')"
  by (simp add: read_catalogue_def file_lines_def read_line_def str_in_def split.simps
        bound_method_eq_str_def strip_def isspace_def)




section \<open>Running git: properties\<close>









lemma read_lines_filter:
  "read_lines self lns = Inr s \<Longrightarrow> repositories_filter s = repositories_filter self"
proof (induction lns arbitrary: self)
  case Nil
  then show ?case by simp
next
  case (Cons l lns)
  from Cons.prems obtain s1 where s1: "read_line self l = Inr s1" and rest: "read_lines s1 lns = Inr s"
    by (auto split: sum.splits)
  from read_line_cases [OF s1] have "repositories_filter s1 = repositories_filter self" by auto
  with Cons.IH [OF rest] show ?case by simp
qed

text \<open>
  Claim C9, as amended. \<open>repositories\<close> compiles the filter with no handler around
  it: for a pattern that \<open>re.compile\<close> rejects it ends in the exception of
  \<open>re.compile\<close>, uncaught, and never through \<open>error_message\<close>. \<open>read_catalogue\<close>
  calls it for the display width: once the lines of the file are read, the load ends
  in the same uncaught exception, unless the exception is a ValueError, which the
  \<open>except ValueError\<close> of the load swallows, setting the width to 0; and on every
  object that a load returns, \<open>repositories\<close> raises the exception again.
\<close>

theorem invalid_filter_uncaught:
  assumes "repositories_filter self = Some pat" and "re_compile pat = Inl exn"
  shows "repositories re_compile self = Inl (Uncaught exn)
       \<and> (\<forall>content s'. read_lines (self\<lparr>catalogue := []\<rparr>) (file_lines content) = Inr s'
             \<longrightarrow> read_catalogue re_compile (Some content) self
                   = (if exn = ''ValueError'' then Inr (s'\<lparr>max_width := 0\<rparr>)
                      else Inl (Uncaught exn)))
       \<and> (\<forall>f s. read_catalogue re_compile f self = Inr s
             \<longrightarrow> exn = ''ValueError'' \<and> repositories re_compile s = Inl (Uncaught exn))"
proof -
  have r: "repositories re_compile s = Inl (Uncaught exn)"
    if "repositories_filter s = Some pat" for s
    using that assms(2) by (simp add: repositories_def)
  have l: "read_catalogue re_compile (Some content) self
             = (if exn = ''ValueError'' then Inr (s'\<lparr>max_width := 0\<rparr>) else Inl (Uncaught exn))"
    if "read_lines (self\<lparr>catalogue := []\<rparr>) (file_lines content) = Inr s'" for content s'
  proof -
    from read_lines_filter [OF that] assms(1) have "repositories_filter s' = Some pat" by simp
    from r [OF this] that show ?thesis by (simp add: read_catalogue_def)
  qed
  have "exn = ''ValueError'' \<and> repositories re_compile s = Inl (Uncaught exn)"
    if "read_catalogue re_compile f self = Inr s" for f s
  proof (cases f)
    case None
    with that show ?thesis by (simp add: read_catalogue_def)
  next
    case (Some content)
    show ?thesis
    proof (cases "read_lines (self\<lparr>catalogue := []\<rparr>) (file_lines content)")
      case (Inl e)
      with Some that show ?thesis by (simp add: read_catalogue_def)
    next
      case (Inr s')
      from read_lines_filter [OF Inr] assms(1) have "repositories_filter s' = Some pat" by simp
      with l [OF Inr] Some that r [of "s'\<lparr>max_width := 0\<rparr>"] show ?thesis
        by (auto split: if_splits)
    qed
  qed
  with r [OF assms(1)] l show ?thesis by blast
qed

theorem invalid_filter_uncaught_witness:
  "repositories_filter (sample_gitcat\<lparr>repositories_filter := Some ''(''\<rparr>) = Some ''(''
   \<and> literal_re_compile ''('' = Inl ''re.error''
   \<and> repositories literal_re_compile (sample_gitcat\<lparr>repositories_filter := Some ''(''\<rparr>)
       = Inl (Uncaught ''re.error'')
   \<and> read_catalogue literal_re_compile (Some (''a = 1'' @ [LF]))
        (sample_gitcat\<lparr>repositories_filter := Some ''(''\<rparr>) = Inl (Uncaught ''re.error'')
   \<and> literal_re_compile ''(?a)(?u)x'' = Inl ''ValueError''
   \<and> read_catalogue literal_re_compile (Some (''a = 1'' @ [LF]))
        (sample_gitcat\<lparr>repositories_filter := Some ''(?a)(?u)x''\<rparr>)
       = Inr (sample_gitcat\<lparr>repositories_filter := Some ''(?a)(?u)x'', catalogue := [(''a'', ''1'')],
                             max_width := 0\<rparr>)
   \<and> repositories literal_re_compile
        (sample_gitcat\<lparr>repositories_filter := Some ''(?a)(?u)x'', catalogue := [(''a'', ''1'')],
                        max_width := 0\<rparr>) = Inl (Uncaught ''ValueError'')"
proof -
  have h: "repositories_filter (sample_gitcat\<lparr>repositories_filter := Some ''(''\<rparr>) = Some ''(''"
    "literal_re_compile ''('' = Inl ''re.error''"
    "repositories_filter (sample_gitcat\<lparr>repositories_filter := Some ''(?a)(?u)x''\<rparr>) = Some ''(?a)(?u)x''"
    "literal_re_compile ''(?a)(?u)x'' = Inl ''ValueError''"
    by (simp_all add: literal_re_compile_def)
  have rl: "read_lines (sample_gitcat\<lparr>repositories_filter := f, catalogue := []\<rparr>) (file_lines (''a = 1'' @ [LF]))
          = Inr (sample_gitcat\<lparr>repositories_filter := f, catalogue := [(''a'', ''1'')]\<rparr>)" for f
    by (simp add: eval_simps file_lines_def read_line_def split.simps bound_method_eq_str_def)
  from invalid_filter_uncaught [of "sample_gitcat\<lparr>repositories_filter := Some ''(''\<rparr>" "''(''"
      literal_re_compile "''re.error''"] h rl [of "Some ''(''"]
  have a: "repositories literal_re_compile (sample_gitcat\<lparr>repositories_filter := Some ''(''\<rparr>)
       = Inl (Uncaught ''re.error'')"
    "read_catalogue literal_re_compile (Some (''a = 1'' @ [LF]))
        (sample_gitcat\<lparr>repositories_filter := Some ''(''\<rparr>) = Inl (Uncaught ''re.error'')"
    by simp_all
  from invalid_filter_uncaught [of "sample_gitcat\<lparr>repositories_filter := Some ''(?a)(?u)x''\<rparr>"
      "''(?a)(?u)x''" literal_re_compile "''ValueError''"] h rl [of "Some ''(?a)(?u)x''"]
  have b: "read_catalogue literal_re_compile (Some (''a = 1'' @ [LF]))
        (sample_gitcat\<lparr>repositories_filter := Some ''(?a)(?u)x''\<rparr>)
       = Inr (sample_gitcat\<lparr>repositories_filter := Some ''(?a)(?u)x'', catalogue := [(''a'', ''1'')],
                             max_width := 0\<rparr>)"
    by simp
  from invalid_filter_uncaught [of "sample_gitcat\<lparr>repositories_filter := Some ''(?a)(?u)x''\<rparr>"
      "''(?a)(?u)x''" literal_re_compile "''ValueError''"] h b
  have c: "repositories literal_re_compile
        (sample_gitcat\<lparr>repositories_filter := Some ''(?a)(?u)x'', catalogue := [(''a'', ''1'')],
                        max_width := 0\<rparr>) = Inl (Uncaught ''ValueError'')"
    by blast
  from h a b c show ?thesis by simp
qed

text \<open>
  Claim C9 as stated fails: for the pattern \<open>(\<close> the outcome of the selection, and of
  the load that calls it, is the uncaught exception, not a one-line diagnostic of
  \<open>error_message\<close> with exit status 1.
\<close>

theorem invalid_filter_counterexample:
  "literal_re_compile ''('' = Inl ''re.error''
   \<and> repositories literal_re_compile (sample_gitcat\<lparr>repositories_filter := Some ''(''\<rparr>)
       = Inl (Uncaught ''re.error'')
   \<and> read_catalogue literal_re_compile (Some (''a = 1'' @ [LF]))
        (sample_gitcat\<lparr>repositories_filter := Some ''(''\<rparr>) = Inl (Uncaught ''re.error'')"
  by (simp add: eval_simps literal_re_compile_def repositories_def read_catalogue_def file_lines_def
        read_line_def split.simps bound_method_eq_str_def)

end
